theory Spec2Isabelle
  imports Main
begin

section \<open>JavaScript values used by the logger and the endpoints\<close>

text \<open>
  Values that end up in a \<open>details\<close> mapping or in a JSON body. An object is an
  association list in property-insertion order; a property is read with \<open>map_of\<close>
  (first match) and written with \<open>obj_set\<close>, which overwrites in place when the key
  exists and appends otherwise, as an assignment to a JavaScript object does for
  string keys.
\<close>

datatype jsval =
    JNull
  | JBool bool
  | JNum int
  | JStr string
  | JArr "jsval list"
  | JObj "(string \<times> jsval) list"

type_synonym js_object = "(string \<times> jsval) list"

fun obj_set :: "'k \<Rightarrow> 'v \<Rightarrow> ('k \<times> 'v) list \<Rightarrow> ('k \<times> 'v) list" where
  "obj_set k v [] = [(k, v)]"
| "obj_set k v (p # ps) = (if fst p = k then (k, v) # ps else p # obj_set k v ps)"

text \<open>Object spread \<open>{...base, ...ext}\<close>: the properties of \<open>ext\<close> are assigned in order.\<close>

definition obj_spread :: "('k \<times> 'v) list \<Rightarrow> ('k \<times> 'v) list \<Rightarrow> ('k \<times> 'v) list" where
  "obj_spread base ext = foldl (\<lambda>acc kv. obj_set (fst kv) (snd kv) acc) base ext"

text \<open>
  \<open>a || b\<close> on an optional string: \<open>null\<close>, \<open>undefined\<close> and the empty string
  are falsy.
\<close>

definition or_str :: "string option \<Rightarrow> string \<Rightarrow> string" where
  "or_str a d = (case a of None \<Rightarrow> d | Some s \<Rightarrow> if s = [] then d else s)"

definition or_undefined :: "string option \<Rightarrow> string option \<Rightarrow> string option" where
  "or_undefined a b = (case a of None \<Rightarrow> b | Some s \<Rightarrow> if s = [] then b else Some s)"

text \<open>\<open>xs[i]\<close>: \<open>undefined\<close> outside the array.\<close>

definition at_index :: "'a list \<Rightarrow> int \<Rightarrow> 'a option" where
  "at_index xs i = (if 0 \<le> i \<and> i < int (length xs) then Some (xs ! nat i) else None)"

text \<open>
  \<open>xs.slice(start)\<close> for an integer \<open>start\<close>: a negative start counts from the end
  and is clamped at 0, a non-negative one is clamped at the length. \<open>-0\<close> is \<open>0\<close>.
\<close>

definition slice_from :: "int \<Rightarrow> 'a list \<Rightarrow> 'a list" where
  "slice_from start xs =
     (let len = int (length xs);
          k = (if start < 0 then max (len + start) 0 else min start len)
      in drop (nat k) xs)"

text \<open>Decimal rendering of an integer, as a template literal renders a number.\<close>

fun digits :: "nat \<Rightarrow> string" where
  "digits n = (if n < 10 then [''0123456789'' ! n]
               else digits (n div 10) @ [''0123456789'' ! (n mod 10)])"

declare digits.simps [simp del]

definition show_int :: "int \<Rightarrow> string" where
  "show_int i = (if i < 0 then ''-'' @ digits (nat (- i)) else digits (nat i))"

text \<open>
  A value that is thrown. Converting it to a string, as a template literal does,
  either yields a text or throws in turn: a Symbol, an object without prototype and
  an object whose \<open>toString\<close> throws cannot be converted. \<open>JsUnprintable v\<close> is a
  value whose conversion throws \<open>v\<close>.
\<close>

datatype js_error = JsError string | JsUnprintable js_error

fun error_text :: "js_error \<Rightarrow> js_error + string" where
  "error_text (JsError m) = Inr m"
| "error_text (JsUnprintable thrown) = Inl thrown"


section \<open>Header lists\<close>

text \<open>
  A \<open>Headers\<close> object is a list of name/value pairs; names are compared without
  regard to ASCII case. \<open>get\<close> joins the values of all pairs with the name,
  \<open>set\<close> overwrites the first pair with the name and removes the others, or
  appends a new pair.
\<close>

type_synonym headers = "(string \<times> string) list"

definition lower_char :: "char \<Rightarrow> char" where
  "lower_char c =
     (case map_of (zip ''ABCDEFGHIJKLMNOPQRSTUVWXYZ'' ''abcdefghijklmnopqrstuvwxyz'') c of
        Some d \<Rightarrow> d
      | None \<Rightarrow> c)"

definition lower :: "string \<Rightarrow> string" where
  "lower s = map lower_char s"

definition same_name :: "string \<Rightarrow> string \<times> string \<Rightarrow> bool" where
  "same_name name p = (lower (fst p) = lower name)"

fun join :: "string \<Rightarrow> string list \<Rightarrow> string" where
  "join sep [] = []"
| "join sep [x] = x"
| "join sep (x # y # ys) = x @ sep @ join sep (y # ys)"

definition headers_get :: "string \<Rightarrow> headers \<Rightarrow> string option" where
  "headers_get name h =
     (let ps = filter (same_name name) h
      in if ps = [] then None else Some (join '', '' (map snd ps)))"

fun headers_set :: "string \<Rightarrow> string \<Rightarrow> headers \<Rightarrow> headers" where
  "headers_set name v [] = [(name, v)]"
| "headers_set name v (p # ps) =
     (if same_name name p then (fst p, v) # filter (\<lambda>q. \<not> same_name name q) ps
      else p # headers_set name v ps)"

text \<open>\<open>new Headers(init)\<close> / the \<open>headers\<close> member of a \<open>Response\<close> initialiser.\<close>

definition new_Headers :: "(string \<times> string) list \<Rightarrow> headers" where
  "new_Headers init = foldl (\<lambda>h kv. h @ [kv]) [] init"


section \<open>Requests and responses\<close>

text \<open>
  A request as the code reads it: its method, its header list, and its URL already
  parsed (\<open>new URL(request.url)\<close> cannot fail on the URL of a \<open>Request\<close>) into the
  path name and the list of query parameters.
\<close>

record request =
  req_method :: string
  req_headers :: headers
  req_pathname :: string
  req_search :: "(string \<times> string) list"

datatype body = Text string | Json jsval

record response =
  status :: nat
  res_headers :: headers
  headers_immutable :: bool
  res_body :: body


section \<open>The event log: \<open>security-logger.ts\<close>\<close>

datatype level = INFO | WARN | ERROR | CRITICAL

fun level_name :: "level \<Rightarrow> string" where
  "level_name INFO = ''INFO''"
| "level_name WARN = ''WARN''"
| "level_name ERROR = ''ERROR''"
| "level_name CRITICAL = ''CRITICAL''"

record SecurityLog =
  timestamp :: string
  level :: level
  event :: string
  details :: js_object
  ip :: "string option"
  userAgent :: "string option"
  endpoint :: "string option"

text \<open>
  The globals the bundler defines (\<open>__VERSION__\<close>, \<open>__BUILD_TIME__\<close>) and whether a
  global \<open>window\<close> exists (in a browser, not on the server).
\<close>

record build_env =
  VERSION :: string
  BUILD_TIME :: string
  window_defined :: bool

text \<open>
  What one call of \<open>log\<close> reads from outside: the two readings of the clock
  (\<open>new Date().toISOString()\<close>, the second one only evaluated as the fallback of the
  build time), and the failure, if any, raised inside the \<open>try\<close> block of the alert
  dispatch.
\<close>

record log_io =
  now_timestamp :: string
  now_buildTime :: string
  alert_fault :: "js_error option"

datatype console_arg = ArgEntry SecurityLog | ArgError js_error

datatype console_call =
    Console_log string "console_arg list"
  | Console_warn string "console_arg list"
  | Console_error string "console_arg list"

text \<open>The logger instance (its private array) together with the console it writes to.\<close>

record proc =
  logs :: "SecurityLog list"
  console :: "console_call list"

definition maxLogs :: nat where
  "maxLogs = 1000"

definition getInstance :: proc where
  "getInstance = \<lparr>logs = [], console = []\<rparr>"

text \<open>The police-light sign U+1F6A8 in UTF-8.\<close>

definition siren :: string where
  "siren = [CHR 0xF0, CHR 0x9F, CHR 0x9A, CHR 0xA8]"

definition extractIP :: "request option \<Rightarrow> string option" where
  "extractIP request =
     (case request of
        None \<Rightarrow> None
      | Some r \<Rightarrow>
          (let forwardedFor = headers_get ''x-forwarded-for'' (req_headers r);
               realIP = headers_get ''x-real-ip'' (req_headers r);
               vercelForwardedFor = headers_get ''x-vercel-forwarded-for'' (req_headers r);
               firstHop = map_option (takeWhile (\<lambda>c. c \<noteq> CHR '','')) forwardedFor
           in or_undefined vercelForwardedFor
                (or_undefined realIP (or_undefined firstHop None))))"

definition logEntry ::
  "build_env \<Rightarrow> log_io \<Rightarrow> level \<Rightarrow> string \<Rightarrow> js_object option \<Rightarrow> request option \<Rightarrow> SecurityLog"
where
  "logEntry env io lvl ev dets request =
     \<lparr>timestamp = now_timestamp io,
      level = lvl,
      event = ev,
      details =
        obj_set ''buildTime'' (JStr (or_str (Some (BUILD_TIME env)) (now_buildTime io)))
          (obj_set ''buildVersion'' (JStr (or_str (Some (VERSION env)) ''1.0.0-LogsGonstr''))
             (case dets of None \<Rightarrow> [] | Some d \<Rightarrow> d)),
      ip = extractIP request,
      userAgent =
        (case request of
           None \<Rightarrow> None
         | Some r \<Rightarrow> or_undefined (headers_get ''user-agent'' (req_headers r)) None),
      endpoint = map_option req_pathname request\<rparr>"

text \<open>
  \<open>sendCriticalAlert\<close> is an \<open>async\<close> function whose whole body is a \<open>try\<close>/\<open>catch\<close>.
  The result is what it wrote to the console and how its promise settles.
\<close>

definition alert_try :: "js_error option \<Rightarrow> SecurityLog \<Rightarrow> console_call list \<times> (js_error + unit)" where
  "alert_try fault entry =
     (case fault of
        None \<Rightarrow> ([Console_log (siren @ '' CRITICAL SECURITY ALERT:'') [ArgEntry entry]], Inr ())
      | Some err \<Rightarrow> ([], Inl err))"

definition sendCriticalAlert ::
  "js_error option \<Rightarrow> SecurityLog \<Rightarrow> console_call list \<times> (js_error + unit)"
where
  "sendCriticalAlert fault entry =
     (case alert_try fault entry of
        (out, Inr u) \<Rightarrow> (out, Inr u)
      | (out, Inl err) \<Rightarrow>
          (out @ [Console_error ''[LogsGonstr] Failed to send critical alert:'' [ArgError err]],
           Inr ()))"

definition console_tier :: "level \<Rightarrow> string \<Rightarrow> SecurityLog \<Rightarrow> console_call" where
  "console_tier lvl consoleMessage entry =
     (case lvl of
        INFO \<Rightarrow> Console_log consoleMessage [ArgEntry entry]
      | WARN \<Rightarrow> Console_warn consoleMessage [ArgEntry entry]
      | ERROR \<Rightarrow> Console_error consoleMessage [ArgEntry entry]
      | CRITICAL \<Rightarrow> Console_error (siren @ '' '' @ consoleMessage) [ArgEntry entry])"

text \<open>
  \<open>log\<close>: push, drop the oldest entry when the array has grown beyond \<open>maxLogs\<close>,
  write the console line, and for a critical event in a browser start the alert
  dispatch without awaiting it (its promise is dropped).
\<close>

definition log ::
  "build_env \<Rightarrow> log_io \<Rightarrow> level \<Rightarrow> string \<Rightarrow> js_object option \<Rightarrow> request option \<Rightarrow> proc
     \<Rightarrow> js_error + proc"
where
  "log env io lvl ev dets request p =
     (let entry = logEntry env io lvl ev dets request;
          pushed = logs p @ [entry];
          kept = (if length pushed > maxLogs then tl pushed else pushed);
          consoleMessage =
            ''[LogsGonstr-'' @ level_name lvl @ ''] '' @ timestamp entry @ '' - '' @ ev;
          alert =
            (if lvl = CRITICAL \<and> window_defined env
             then fst (sendCriticalAlert (alert_fault io) entry) else [])
      in Inr \<lparr>logs = kept,
              console = console p @ [console_tier lvl consoleMessage entry] @ alert\<rparr>)"

text \<open>One recorded call: the arguments of \<open>log\<close> and what it read from outside.\<close>

record log_call =
  call_io :: log_io
  call_level :: level
  call_event :: string
  call_details :: "js_object option"
  call_request :: "request option"

definition call_entry :: "build_env \<Rightarrow> log_call \<Rightarrow> SecurityLog" where
  "call_entry env c =
     logEntry env (call_io c) (call_level c) (call_event c) (call_details c) (call_request c)"

fun log_all :: "build_env \<Rightarrow> log_call list \<Rightarrow> proc \<Rightarrow> js_error + proc" where
  "log_all env [] p = Inr p"
| "log_all env (c # cs) p =
     (case log env (call_io c) (call_level c) (call_event c) (call_details c) (call_request c) p of
        Inl e \<Rightarrow> Inl e
      | Inr p' \<Rightarrow> log_all env cs p')"

text \<open>The default value 50 of the parameter \<open>limit\<close> applies when the argument is left out.\<close>

definition limit_or_50 :: "int option \<Rightarrow> int" where
  "limit_or_50 limit = (case limit of None \<Rightarrow> 50 | Some n \<Rightarrow> n)"

definition getRecentLogs :: "int option \<Rightarrow> proc \<Rightarrow> SecurityLog list" where
  "getRecentLogs limit p = slice_from (- limit_or_50 limit) (logs p)"

definition getLogsByLevel :: "level \<Rightarrow> int option \<Rightarrow> proc \<Rightarrow> SecurityLog list" where
  "getLogsByLevel lvl limit p =
     slice_from (- limit_or_50 limit) (filter (\<lambda>e. level e = lvl) (logs p))"

definition getCriticalEvents :: "proc \<Rightarrow> SecurityLog list" where
  "getCriticalEvents p = filter (\<lambda>e. level e = CRITICAL) (logs p)"

record time_range =
  range_from :: string
  range_to :: string

record report =
  summary :: "(level \<times> nat) list"
  recentEvents :: "SecurityLog list"
  criticalEvents :: "SecurityLog list"
  timeRange :: time_range

definition count_level :: "(level \<times> nat) list \<Rightarrow> SecurityLog \<Rightarrow> (level \<times> nat) list" where
  "count_level acc e =
     obj_set (level e) ((case map_of acc (level e) of None \<Rightarrow> 0 | Some n \<Rightarrow> n) + 1) acc"

text \<open>
  The two arguments are the two clock readings taken for the fallbacks of
  \<open>timeRange\<close>.
\<close>

definition generateSecurityReport :: "string \<Rightarrow> string \<Rightarrow> proc \<Rightarrow> report" where
  "generateSecurityReport now_from now_to p =
     \<lparr>summary = foldl count_level [] (logs p),
      recentEvents = getRecentLogs (Some 10) p,
      criticalEvents = getCriticalEvents p,
      timeRange =
        \<lparr>range_from = or_str (map_option timestamp (at_index (logs p) 0)) now_from,
         range_to =
           or_str (map_option timestamp (at_index (logs p) (int (length (logs p)) - 1))) now_to\<rparr>\<rparr>"

definition summary_total :: "(level \<times> nat) list \<Rightarrow> nat" where
  "summary_total s = sum_list (map snd s)"


section \<open>The request interceptor: \<open>middleware.ts\<close>\<close>

record APIContext =
  ctx_request :: request
  clientAddress :: string

text \<open>
  The clock readings of one run of \<open>onRequest\<close>, in source order: \<open>Date.now()\<close> is a
  number of milliseconds, \<open>new Date().toISOString()\<close> a string.
\<close>

record mw_clock =
  startTime :: int
  iso_request :: string
  scanTime :: int
  endTime :: int
  iso_response :: string
  iso_error :: string
  errorTime :: int

text \<open>The last directive ends with an apostrophe, written as the character \<open>0x27\<close>.\<close>

definition csp_value :: string where
  "csp_value =
     ''default-src 'self'; '' @
     ''img-src 'self' https: data: blob:; '' @
     ''style-src 'self' 'unsafe-inline' fonts.googleapis.com; '' @
     ''font-src 'self' fonts.gstatic.com; '' @
     ''script-src 'self' 'unsafe-inline'; '' @
     ''connect-src 'self' vercel.live; '' @
     ''frame-ancestors 'none'; '' @
     ''base-uri 'self'' @ [CHR 0x27]"

definition permissions_value :: string where
  "permissions_value =
     ''geolocation=(), microphone=(), camera=(), payment=(), usb=(), magnetometer=(), gyroscope=()''"

text \<open>
  Writing to the header list of a response. The list of a response built with
  \<open>new Response\<close> can be written to; that of \<open>Response.redirect(...)\<close>, of
  \<open>Response.error()\<close> and of a \<open>fetch\<close> result is immutable, and \<open>set\<close> throws a
  \<open>TypeError\<close> on it (the text is the one Node prints).
\<close>

definition immutable_TypeError :: js_error where
  "immutable_TypeError = JsError ''TypeError: immutable''"

definition response_headers_set :: "string \<Rightarrow> string \<Rightarrow> response \<Rightarrow> js_error + response" where
  "response_headers_set name v r =
     (if headers_immutable r then Inl immutable_TypeError
      else Inr (r\<lparr>res_headers := headers_set name v (res_headers r)\<rparr>))"

text \<open>Sequencing inside a \<open>try\<close> block: the first statement that throws ends it.\<close>

definition and_then :: "js_error + 'a \<Rightarrow> ('a \<Rightarrow> js_error + 'b) \<Rightarrow> js_error + 'b" where
  "and_then x f = (case x of Inl e \<Rightarrow> Inl e | Inr a \<Rightarrow> f a)"

text \<open>The eight calls of \<open>response.headers.set\<close> in the \<open>try\<close> block, in source order.\<close>

definition decorate :: "int \<Rightarrow> response \<Rightarrow> js_error + response" where
  "decorate scan response =
     and_then (response_headers_set ''Content-Security-Policy'' csp_value response) (\<lambda>r1.
     and_then (response_headers_set ''X-Content-Type-Options'' ''nosniff'' r1) (\<lambda>r2.
     and_then (response_headers_set ''X-Frame-Options'' ''DENY'' r2) (\<lambda>r3.
     and_then (response_headers_set ''X-XSS-Protection'' ''1; mode=block'' r3) (\<lambda>r4.
     and_then (response_headers_set ''Referrer-Policy'' ''strict-origin-when-cross-origin'' r4) (\<lambda>r5.
     and_then (response_headers_set ''Permissions-Policy'' permissions_value r5) (\<lambda>r6.
     and_then (response_headers_set ''X-Powered-By-LogsGonstr'' ''Secure-Portfolio-v1.0'' r6) (\<lambda>r7.
     response_headers_set ''X-Security-Scan'' (show_int scan) r7)))))))"

text \<open>What the eight calls make of a header list that can be written to.\<close>

definition set_security_headers :: "int \<Rightarrow> headers \<Rightarrow> headers" where
  "set_security_headers scan h =
     headers_set ''X-Security-Scan'' (show_int scan)
       (headers_set ''X-Powered-By-LogsGonstr'' ''Secure-Portfolio-v1.0''
          (headers_set ''Permissions-Policy'' permissions_value
             (headers_set ''Referrer-Policy'' ''strict-origin-when-cross-origin''
                (headers_set ''X-XSS-Protection'' ''1; mode=block''
                   (headers_set ''X-Frame-Options'' ''DENY''
                      (headers_set ''X-Content-Type-Options'' ''nosniff''
                         (headers_set ''Content-Security-Policy'' csp_value h)))))))"

definition errorResponse :: "int \<Rightarrow> response" where
  "errorResponse t =
     \<lparr>status = 500,
      res_headers =
        new_Headers
          [(''Content-Type'', ''text/plain''),
           (''X-Error-ID'', ''LogsGonstr-'' @ show_int t),
           (''X-Content-Type-Options'', ''nosniff''),
           (''X-Frame-Options'', ''DENY'')],
      headers_immutable = False,
      res_body = Text ''Internal Server Error''\<rparr>"

text \<open>
  \<open>onRequest\<close>. The third argument is how \<open>await next()\<close> settles: the downstream
  response, or the value it throws. The result is how \<open>onRequest\<close> itself settles (the
  response it returns, or the value it rejects with) and the lines written to the
  console. The \<open>try\<close> block holds the call of \<open>next\<close> and the eight header writes, so
  a failing write is caught like a failing handler. The \<open>catch\<close> block renders the
  caught value into its console line before it builds the 500 response; when that
  conversion throws, nothing catches it and \<open>onRequest\<close> rejects.
\<close>

definition onRequest ::
  "mw_clock \<Rightarrow> APIContext \<Rightarrow> js_error + response
     \<Rightarrow> (js_error + response) \<times> console_call list"
where
  "onRequest clk context next_result =
     (let userAgent = or_str (headers_get ''user-agent'' (req_headers (ctx_request context))) ''unknown'';
          clientIP = or_str (Some (clientAddress context)) ''unknown'';
          pathname = req_pathname (ctx_request context);
          requestLine =
            Console_log
              (''[LogsGonstr-Security] '' @ iso_request clk @ '' - Request: ''
                 @ req_method (ctx_request context) @ '' '' @ pathname
                 @ '' - IP: '' @ clientIP @ '' - UA: '' @ userAgent) []
      in case and_then next_result (decorate (scanTime clk)) of
           Inr decorated \<Rightarrow>
             (let responseTime = endTime clk - startTime clk
              in (Inr decorated,
                  [requestLine,
                   Console_log
                     (''[LogsGonstr-Security] '' @ iso_response clk @ '' - Response: ''
                        @ digits (status decorated) @ '' - Time: '' @ show_int responseTime
                        @ ''ms - Path: '' @ pathname) []]))
         | Inl error \<Rightarrow>
             (case error_text error of
                Inl thrown \<Rightarrow> (Inl thrown, [requestLine])
              | Inr message \<Rightarrow>
                  (Inr (errorResponse (errorTime clk)),
                   [requestLine,
                    Console_error
                      (''[LogsGonstr-Security-ERROR] '' @ iso_error clk @ '' - Error: ''
                         @ message @ '' - IP: '' @ clientIP @ '' - Path: '' @ pathname) []])))"


section \<open>The status endpoint: \<open>GET /api/security-status\<close>\<close>

definition SUSPICIOUS_ACCESS :: string where
  "SUSPICIOUS_ACCESS = ''SUSPICIOUS_ACCESS''"

definition SECURITY_SCAN :: string where
  "SECURITY_SCAN = ''SECURITY_SCAN''"

definition ADMIN_TOKEN :: string where
  "ADMIN_TOKEN = ''LogsGonstr-Admin-2026''"

text \<open>
  What \<open>JSON.stringify\<close> writes for an entry and for the report: the body of a JSON
  response is kept as the value that is serialised. Properties whose value is
  \<open>undefined\<close> are left out.
\<close>

definition json_opt :: "string \<Rightarrow> string option \<Rightarrow> js_object" where
  "json_opt k v = (case v of None \<Rightarrow> [] | Some s \<Rightarrow> [(k, JStr s)])"

definition json_of_log :: "SecurityLog \<Rightarrow> jsval" where
  "json_of_log e =
     JObj ([(''timestamp'', JStr (timestamp e)),
            (''level'', JStr (level_name (level e))),
            (''event'', JStr (event e)),
            (''details'', JObj (details e))]
           @ json_opt ''ip'' (ip e)
           @ json_opt ''userAgent'' (userAgent e)
           @ json_opt ''endpoint'' (endpoint e))"

definition json_of_summary :: "(level \<times> nat) list \<Rightarrow> jsval" where
  "json_of_summary s = JObj (map (\<lambda>kv. (level_name (fst kv), JNum (int (snd kv)))) s)"

definition json_of_report :: "report \<Rightarrow> js_object" where
  "json_of_report r =
     [(''summary'', json_of_summary (summary r)),
      (''recentEvents'', JArr (map json_of_log (recentEvents r))),
      (''criticalEvents'', JArr (map json_of_log (criticalEvents r))),
      (''timeRange'',
         JObj [(''from'', JStr (range_from (timeRange r))),
               (''to'', JStr (range_to (timeRange r)))])]"

definition status_envelope :: "string \<Rightarrow> js_object" where
  "status_envelope now =
     [(''status'', JStr ''secure''),
      (''timestamp'', JStr now),
      (''version'', JStr ''1.0.0-LogsGonstr''),
      (''environment'', JStr ''production''),
      (''security'',
         JObj [(''csp'', JStr ''enabled''),
               (''headers'', JStr ''secured''),
               (''middleware'', JStr ''active''),
               (''monitoring'', JStr ''active'')])]"

text \<open>The clock readings of one run of \<open>GET\<close>, after those of its \<open>log\<close> call.\<close>

record get_io =
  io_log :: log_io
  now_range_from :: string
  now_range_to :: string
  now_body :: string

definition GET ::
  "build_env \<Rightarrow> get_io \<Rightarrow> request \<Rightarrow> string \<Rightarrow> proc \<Rightarrow> js_error + (response \<times> proc)"
where
  "GET env io request clientAddr p =
     (let token = map_of (req_search request) ''token''
      in if token \<noteq> Some ADMIN_TOKEN then
           (case log env (io_log io) WARN SUSPICIOUS_ACCESS
                   (Some [(''reason'', JStr ''Invalid admin token attempt''),
                          (''ip'', JStr clientAddr),
                          (''endpoint'', JStr ''/api/security-status'')])
                   (Some request) p of
              Inl e \<Rightarrow> Inl e
            | Inr p' \<Rightarrow>
                Inr (\<lparr>status = 401,
                      res_headers =
                        new_Headers [(''Content-Type'', ''text/plain''),
                                     (''X-Security-Alert'', ''Invalid Token'')],
                      headers_immutable = False,
                      res_body = Text ''Unauthorized''\<rparr>, p'))
         else
           (case log env (io_log io) INFO SECURITY_SCAN
                   (Some [(''action'', JStr ''Security status requested''),
                          (''admin'', JBool True)])
                   (Some request) p of
              Inl e \<Rightarrow> Inl e
            | Inr p' \<Rightarrow>
                (let report = generateSecurityReport (now_range_from io) (now_range_to io) p'
                 in Inr (\<lparr>status = 200,
                          res_headers =
                            new_Headers [(''Content-Type'', ''application/json''),
                                         (''X-Security-Level'', ''high''),
                                         (''X-LogsGonstr-Version'', ''1.0.0'')],
                          headers_immutable = False,
                          res_body =
                            Json (JObj (obj_spread (status_envelope (now_body io))
                                          (json_of_report report)))\<rparr>, p'))))"


section \<open>A small run: five events A, B, C, D, E\<close>

text \<open>
  Two \<open>INFO\<close> events, two \<open>WARN\<close> events and one \<open>CRITICAL\<close> event, recorded in this
  order on the server (no \<open>window\<close>), with the build constants of \<open>astro.config.mjs\<close>.
\<close>

definition server_env :: build_env where
  "server_env =
     \<lparr>VERSION = ''1.0.0-LogsGonstr'', BUILD_TIME = ''2026-01-20T08:00:00.000Z'',
      window_defined = False\<rparr>"

definition browser_env :: build_env where
  "browser_env = server_env\<lparr>window_defined := True\<rparr>"

definition io_at :: "string \<Rightarrow> log_io" where
  "io_at t = \<lparr>now_timestamp = t, now_buildTime = t, alert_fault = None\<rparr>"

definition call_at :: "string \<Rightarrow> level \<Rightarrow> string \<Rightarrow> log_call" where
  "call_at t lvl ev =
     \<lparr>call_io = io_at t, call_level = lvl, call_event = ev,
      call_details = None, call_request = None\<rparr>"

definition five_calls :: "log_call list" where
  "five_calls =
     [call_at ''2026-01-20T09:00:00.001Z'' INFO ''NORMAL_ACCESS'',
      call_at ''2026-01-20T09:00:00.002Z'' INFO ''HEALTH_CHECK'',
      call_at ''2026-01-20T09:00:00.003Z'' WARN ''SUSPICIOUS_ACCESS'',
      call_at ''2026-01-20T09:00:00.004Z'' WARN ''RATE_LIMIT_HIT'',
      call_at ''2026-01-20T09:00:00.005Z'' CRITICAL ''SYSTEM_ERROR'']"

definition entry_at :: "string \<Rightarrow> level \<Rightarrow> string \<Rightarrow> SecurityLog" where
  "entry_at t lvl ev =
     \<lparr>timestamp = t, level = lvl, event = ev,
      details = [(''buildVersion'', JStr ''1.0.0-LogsGonstr''),
                 (''buildTime'', JStr ''2026-01-20T08:00:00.000Z'')],
      ip = None, userAgent = None, endpoint = None\<rparr>"

definition five_entries :: "SecurityLog list" where
  "five_entries =
     [entry_at ''2026-01-20T09:00:00.001Z'' INFO ''NORMAL_ACCESS'',
      entry_at ''2026-01-20T09:00:00.002Z'' INFO ''HEALTH_CHECK'',
      entry_at ''2026-01-20T09:00:00.003Z'' WARN ''SUSPICIOUS_ACCESS'',
      entry_at ''2026-01-20T09:00:00.004Z'' WARN ''RATE_LIMIT_HIT'',
      entry_at ''2026-01-20T09:00:00.005Z'' CRITICAL ''SYSTEM_ERROR'']"

definition five_logged :: proc where
  "five_logged = \<lparr>logs = five_entries, console = []\<rparr>"


text \<open>A page request that reaches the interceptor, and requests to the status endpoint.\<close>

definition clock_at :: "int \<Rightarrow> mw_clock" where
  "clock_at t =
     \<lparr>startTime = t, iso_request = ''2026-01-20T09:00:00.000Z'', scanTime = t + 3,
      endTime = t + 5, iso_response = ''2026-01-20T09:00:00.005Z'',
      iso_error = ''2026-01-20T09:00:00.004Z'', errorTime = t + 4\<rparr>"

definition home_request :: request where
  "home_request =
     \<lparr>req_method = ''GET'', req_headers = [(''user-agent'', ''curl/8.5.0'')],
      req_pathname = ''/'', req_search = []\<rparr>"

definition home_context :: APIContext where
  "home_context = \<lparr>ctx_request = home_request, clientAddress = ''203.0.113.7''\<rparr>"

definition page_response :: response where
  "page_response =
     \<lparr>status = 200, res_headers = [], headers_immutable = False,
      res_body = Text ''<html></html>''\<rparr>"

text \<open>What \<open>Response.redirect\<close> builds for the path \<open>/blog\<close>, and a thrown Symbol.\<close>

definition redirect_response :: response where
  "redirect_response =
     \<lparr>status = 302, res_headers = [(''location'', ''/blog'')], headers_immutable = True,
      res_body = Text []\<rparr>"

definition thrown_symbol :: js_error where
  "thrown_symbol = JsUnprintable (JsError ''TypeError: Cannot convert a Symbol value to a string'')"

definition status_request :: "(string \<times> string) list \<Rightarrow> request" where
  "status_request query =
     \<lparr>req_method = ''GET'', req_headers = [(''user-agent'', ''curl/8.5.0'')],
      req_pathname = ''/api/security-status'', req_search = query\<rparr>"

definition status_io :: get_io where
  "status_io =
     \<lparr>io_log = io_at ''2026-01-20T09:00:01.000Z'',
      now_range_from = ''2026-01-20T09:00:01.001Z'',
      now_range_to = ''2026-01-20T09:00:01.001Z'',
      now_body = ''2026-01-20T09:00:01.002Z''\<rparr>"


section \<open>The event log is a bounded FIFO window\<close>

lemma log_returns:
  "log env io lvl ev dets request p =
     Inr \<lparr>logs = (if length (logs p) \<ge> maxLogs
                  then tl (logs p @ [logEntry env io lvl ev dets request])
                  else logs p @ [logEntry env io lvl ev dets request]),
          console = console p
            @ [console_tier lvl
                 (''[LogsGonstr-'' @ level_name lvl @ ''] ''
                    @ timestamp (logEntry env io lvl ev dets request) @ '' - '' @ ev)
                 (logEntry env io lvl ev dets request)]
            @ (if lvl = CRITICAL \<and> window_defined env
               then fst (sendCriticalAlert (alert_fault io) (logEntry env io lvl ev dets request))
               else [])\<rparr>"
  by (simp add: log_def Let_def less_Suc_eq_le)

lemma log_window_step:
  assumes "length xs \<le> maxLogs"
  shows "(if length xs \<ge> maxLogs then tl (xs @ [e]) else xs @ [e])
           = drop (length (xs @ [e]) - maxLogs) (xs @ [e])"
proof (cases "length xs = maxLogs")
  case True
  then have diff: "length (xs @ [e]) - maxLogs = Suc 0" by simp
  have "tl (xs @ [e]) = drop (Suc 0) (xs @ [e])" by (simp only: drop_Suc drop_0)
  with True diff show ?thesis by (simp only: le_refl if_True)
next
  case False
  with assms have "length xs < maxLogs" by simp
  then show ?thesis by simp
qed

lemma drop_window_compose:
  fixes xs ys :: "'a list" and m :: nat
  shows "drop (length (drop (length xs - m) xs @ ys) - m) (drop (length xs - m) xs @ ys)
           = drop (length (xs @ ys) - m) (xs @ ys)"
proof (cases "length xs \<le> m")
  case True
  then show ?thesis by simp
next
  case False
  then have big: "m < length xs" by simp
  let ?k = "length xs - m"
  have app: "drop ?k xs @ ys = drop ?k (xs @ ys)" by simp
  have len: "length (drop ?k (xs @ ys)) - m = length ys" using big by simp
  have sum: "length ys + ?k = length (xs @ ys) - m" using big by simp
  have "drop (length (drop ?k (xs @ ys)) - m) (drop ?k (xs @ ys))
          = drop (length ys + ?k) (xs @ ys)"
    by (simp only: len drop_drop)
  then show ?thesis by (simp only: app sum)
qed

lemma log_all_window:
  "length (logs p) \<le> maxLogs \<Longrightarrow>
     \<exists>p'. log_all env calls p = Inr p'
        \<and> logs p' = drop (length (logs p @ map (call_entry env) calls) - maxLogs)
                      (logs p @ map (call_entry env) calls)"
proof (induction calls arbitrary: p)
  case Nil
  then show ?case by simp
next
  case (Cons c cs)
  let ?e = "call_entry env c"
  let ?xs = "logs p @ [?e]"
  let ?p1 = "\<lparr>logs = drop (length ?xs - maxLogs) ?xs,
              console = console p
                @ [console_tier (call_level c)
                     (''[LogsGonstr-'' @ level_name (call_level c) @ ''] ''
                        @ timestamp ?e @ '' - '' @ call_event c) ?e]
                @ (if call_level c = CRITICAL \<and> window_defined env
                   then fst (sendCriticalAlert (alert_fault (call_io c)) ?e) else [])\<rparr>"
  have step: "log env (call_io c) (call_level c) (call_event c) (call_details c)
                (call_request c) p = Inr ?p1"
    using log_window_step [OF Cons.prems, of ?e]
    by (simp only: log_returns call_entry_def)
  have "length (logs ?p1) \<le> maxLogs" by simp
  from Cons.IH [OF this] obtain p' where
    run: "log_all env cs ?p1 = Inr p'" and
    win: "logs p' = drop (length (logs ?p1 @ map (call_entry env) cs) - maxLogs)
                      (logs ?p1 @ map (call_entry env) cs)"
    by blast
  have "logs p' = drop (length (?xs @ map (call_entry env) cs) - maxLogs)
                    (?xs @ map (call_entry env) cs)"
    using win drop_window_compose [where m = maxLogs and xs = ?xs and ys = "map (call_entry env) cs"] by simp
  then show ?case using run step by simp
qed

text \<open>
  C1. Whatever sequence of \<open>log\<close> calls is made on the fresh instance, every call
  returns, the stored array never holds more than 1000 entries, and it holds exactly
  the entries of the last 1000 calls (all of them when there were fewer), oldest
  first; a single call appends its entry and drops the head exactly when the array
  was already full.
\<close>

theorem log_keeps_last_1000:
  "\<exists>p. log_all env calls getInstance = Inr p
      \<and> logs p = drop (length calls - 1000) (map (call_entry env) calls)
      \<and> length (logs p) = min (length calls) 1000
      \<and> length (logs p) \<le> 1000"
proof -
  have "length (logs getInstance) \<le> maxLogs" by (simp add: getInstance_def)
  from log_all_window [OF this, of env calls] obtain p where
    "log_all env calls getInstance = Inr p" and
    "logs p = drop (length (logs getInstance @ map (call_entry env) calls) - maxLogs)
                (logs getInstance @ map (call_entry env) calls)"
    by blast
  then show ?thesis by (auto simp: getInstance_def maxLogs_def)
qed


section \<open>Queries on the log\<close>

lemma slice_from_last:
  "0 < n \<Longrightarrow> slice_from (- n) xs = drop (length xs - nat n) xs"
  by (auto simp: slice_from_def Let_def max_def nat_diff_distrib' intro: arg_cong [where f = "\<lambda>k. drop k xs"])

lemma slice_from_zero: "slice_from 0 xs = xs"
  by (simp add: slice_from_def)

lemma getRecentLogs_zero: "getRecentLogs (Some 0) p = logs p"
  by (simp add: getRecentLogs_def limit_or_50_def slice_from_zero)

lemma getLogsByLevel_zero:
  "getLogsByLevel lvl (Some 0) p = filter (\<lambda>e. level e = lvl) (logs p)"
  by (simp add: getLogsByLevel_def limit_or_50_def slice_from_zero)

lemma getRecentLogs_positive:
  "0 < n \<Longrightarrow> getRecentLogs (Some n) p = drop (length (logs p) - nat n) (logs p)"
  by (simp add: getRecentLogs_def limit_or_50_def slice_from_last)

lemma getRecentLogs_default:
  "getRecentLogs None p = drop (length (logs p) - 50) (logs p)"
  by (simp add: getRecentLogs_def limit_or_50_def slice_from_last)

lemma getRecentLogs_positive_length:
  "0 < n \<Longrightarrow> length (getRecentLogs (Some n) p) = min (nat n) (length (logs p))"
  by (simp add: getRecentLogs_positive)

lemma getLogsByLevel_positive:
  "0 < n \<Longrightarrow> getLogsByLevel lvl (Some n) p =
     drop (length (filter (\<lambda>e. level e = lvl) (logs p)) - nat n)
       (filter (\<lambda>e. level e = lvl) (logs p))"
  by (simp add: getLogsByLevel_def limit_or_50_def slice_from_last)

lemma getLogsByLevel_default:
  "getLogsByLevel lvl None p =
     drop (length (filter (\<lambda>e. level e = lvl) (logs p)) - 50)
       (filter (\<lambda>e. level e = lvl) (logs p))"
  by (simp add: getLogsByLevel_def limit_or_50_def slice_from_last)

lemma five_entries_run: "map (call_entry server_env) five_calls = five_entries"
  by (simp add: five_calls_def five_entries_def call_entry_def call_at_def io_at_def
      logEntry_def server_env_def entry_at_def or_str_def extractIP_def)

text \<open>The state \<open>five_logged\<close> is the one the five calls leave, up to the console.\<close>

lemma five_logged_reached:
  "\<exists>q. log_all server_env five_calls getInstance = Inr q \<and> logs q = logs five_logged"
proof -
  have "length (logs getInstance) \<le> maxLogs" by (simp add: getInstance_def)
  from log_all_window [OF this, of server_env five_calls] obtain q where
    "log_all server_env five_calls getInstance = Inr q" and
    "logs q = drop (length (logs getInstance @ map (call_entry server_env) five_calls) - maxLogs)
                (logs getInstance @ map (call_entry server_env) five_calls)"
    by blast
  then show ?thesis
    by (auto simp: five_entries_run getInstance_def maxLogs_def five_logged_def five_entries_def)
qed

lemma set_slice_from: "set (slice_from start xs) \<subseteq> set xs"
  by (simp add: slice_from_def Let_def set_drop_subset)

lemma getLogsByLevel_only_level:
  "e \<in> set (getLogsByLevel lvl limit p) \<Longrightarrow> level e = lvl \<and> e \<in> set (logs p)"
  using set_slice_from [of "- limit_or_50 limit" "filter (\<lambda>e. level e = lvl) (logs p)"]
  by (auto simp: getLogsByLevel_def)

text \<open>
  C2. For a limit of at least 1, and for the default 50, \<open>getRecentLogs\<close> returns the
  last \<open>limit\<close> entries, or all of them when there are fewer
  (\<open>getRecentLogs_positive\<close>, \<open>getRecentLogs_default\<close>). At the limit 0 the
  argument of \<open>slice\<close> is \<open>-0\<close>, which is 0, and the whole array comes back: after
  the five events A to E, \<open>getRecentLogs (Some 0)\<close> returns all five, not at most
  \<open>min 0 5 = 0\<close> of them.
\<close>

theorem getRecentLogs_limit_zero:
  "getRecentLogs (Some 0) five_logged = five_entries
   \<and> length (getRecentLogs (Some 0) five_logged) = 5
   \<and> min 0 (length (logs five_logged)) = 0"
  by (simp add: getRecentLogs_def limit_or_50_def slice_from_def five_logged_def
      five_entries_def)

text \<open>
  C3. \<open>getLogsByLevel\<close> returns entries of the requested level only
  (\<open>getLogsByLevel_only_level\<close>), and for a limit of at least 1 the last \<open>limit\<close> of
  them (\<open>getLogsByLevel_positive\<close>). At the limit 0 it returns every entry of the
  level instead of none: after the five events A to E, the critical entries with
  limit 0 are \<open>[E]\<close>.
\<close>

theorem getLogsByLevel_limit_zero:
  "getLogsByLevel CRITICAL (Some 0) five_logged
     = [entry_at ''2026-01-20T09:00:00.005Z'' CRITICAL ''SYSTEM_ERROR'']"
  by (simp add: getLogsByLevel_def limit_or_50_def slice_from_def five_logged_def
      five_entries_def entry_at_def)

lemma obj_set_bump:
  "sum_list (map snd (obj_set k ((case map_of al k of None \<Rightarrow> 0 | Some n \<Rightarrow> n) + 1) al))
     = sum_list (map snd al) + (1::nat)"
  by (induction al) auto

lemma count_level_total:
  "summary_total (count_level acc e) = summary_total acc + 1"
  unfolding summary_total_def count_level_def by (rule obj_set_bump)

lemma foldl_count_level_total:
  "summary_total (foldl count_level acc es) = summary_total acc + length es"
  by (induction es arbitrary: acc) (simp_all add: count_level_total)

lemma obj_set_keys:
  "distinct (map fst al) \<Longrightarrow> distinct (map fst (obj_set k v al))
     \<and> set (map fst (obj_set k v al)) = insert k (set (map fst al))"
  by (induction al) auto

lemma foldl_count_level_distinct:
  "distinct (map fst acc) \<Longrightarrow> distinct (map fst (foldl count_level acc es))"
  by (induction es arbitrary: acc) (simp_all add: count_level_def obj_set_keys)


section \<open>Header lists: reading after writing\<close>

lemma filter_same_headers_set:
  "map snd (filter (same_name name) (headers_set name v h)) = [v]"
proof (induction h)
  case Nil
  show ?case by (simp add: same_name_def)
next
  case (Cons p ps)
  have "filter (same_name name) (filter (\<lambda>q. \<not> same_name name q) ps) = []"
    by (induction ps) auto
  with Cons show ?case by (auto simp: same_name_def)
qed

lemma headers_get_set_same: "headers_get name (headers_set name v h) = Some v"
proof -
  have "map snd (filter (same_name name) (headers_set name v h)) = [v]"
    by (rule filter_same_headers_set)
  moreover from this have "filter (same_name name) (headers_set name v h) \<noteq> []"
    by auto
  ultimately show ?thesis by (simp add: headers_get_def Let_def)
qed

lemma filter_other_headers_set:
  assumes "lower other \<noteq> lower name"
  shows "map snd (filter (same_name other) (headers_set name v h))
           = map snd (filter (same_name other) h)"
proof (induction h)
  case Nil
  from assms show ?case by (simp add: same_name_def)
next
  case (Cons p ps)
  have drop_others: "filter (same_name other) (filter (\<lambda>q. \<not> same_name name q) ps)
          = filter (same_name other) ps"
    using assms by (induction ps) (auto simp: same_name_def)
  show ?case
  proof (cases "same_name name p")
    case True
    then have "\<not> same_name other p" using assms by (simp add: same_name_def)
    moreover have "\<not> same_name other (fst p, v)" using True assms by (simp add: same_name_def)
    ultimately show ?thesis using True drop_others by simp
  next
    case False
    then show ?thesis using Cons by simp
  qed
qed

lemma headers_get_set_other:
  assumes "lower other \<noteq> lower name"
  shows "headers_get other (headers_set name v h) = headers_get other h"
proof -
  have eq: "map snd (filter (same_name other) (headers_set name v h))
          = map snd (filter (same_name other) h)"
    using assms by (rule filter_other_headers_set)
  then have "(filter (same_name other) (headers_set name v h) = [])
           = (filter (same_name other) h = [])"
    by (metis map_is_Nil_conv)
  with eq show ?thesis by (simp add: headers_get_def Let_def)
qed

lemma lower_names:
  "lower ''Content-Security-Policy'' = ''content-security-policy''"
  "lower ''X-Content-Type-Options'' = ''x-content-type-options''"
  "lower ''X-Frame-Options'' = ''x-frame-options''"
  "lower ''X-XSS-Protection'' = ''x-xss-protection''"
  "lower ''Referrer-Policy'' = ''referrer-policy''"
  "lower ''Permissions-Policy'' = ''permissions-policy''"
  "lower ''X-Powered-By-LogsGonstr'' = ''x-powered-by-logsgonstr''"
  "lower ''X-Security-Scan'' = ''x-security-scan''"
  "lower ''Content-Type'' = ''content-type''"
  "lower ''X-Error-ID'' = ''x-error-id''"
  "lower ''X-Security-Alert'' = ''x-security-alert''"
  by (simp_all add: lower_def lower_char_def)

lemma security_headers_present:
  "headers_get ''Content-Security-Policy'' (set_security_headers scan h) = Some csp_value"
  "headers_get ''X-Content-Type-Options'' (set_security_headers scan h) = Some ''nosniff''"
  "headers_get ''X-Frame-Options'' (set_security_headers scan h) = Some ''DENY''"
  "headers_get ''X-XSS-Protection'' (set_security_headers scan h) = Some ''1; mode=block''"
  "headers_get ''Referrer-Policy'' (set_security_headers scan h)
     = Some ''strict-origin-when-cross-origin''"
  "headers_get ''Permissions-Policy'' (set_security_headers scan h) = Some permissions_value"
  "headers_get ''X-Powered-By-LogsGonstr'' (set_security_headers scan h)
     = Some ''Secure-Portfolio-v1.0''"
  "headers_get ''X-Security-Scan'' (set_security_headers scan h) = Some (show_int scan)"
  by (simp_all add: set_security_headers_def headers_get_set_same headers_get_set_other lower_names)


section \<open>The report\<close>

lemma log_all_fresh:
  "\<exists>p. log_all env calls getInstance = Inr p
      \<and> logs p = drop (length calls - 1000) (map (call_entry env) calls)"
proof -
  have "length (logs getInstance) \<le> maxLogs" by (simp add: getInstance_def)
  from log_all_window [OF this, of env calls] show ?thesis
    by (auto simp: getInstance_def maxLogs_def)
qed

lemma report_summary_total:
  "summary_total (summary (generateSecurityReport now_from now_to p)) = length (logs p)"
proof -
  have "summary_total (foldl count_level [] (logs p)) = summary_total [] + length (logs p)"
    by (rule foldl_count_level_total)
  then show ?thesis by (simp add: generateSecurityReport_def summary_total_def)
qed

text \<open>
  C4. The counts of the report's summary add up to the number of entries that are
  stored, each level is counted under one key, and after any run of \<open>log\<close> calls on
  the fresh instance the sum is the number of calls capped at 1000: the summary
  covers the retained window, not every call ever made.
\<close>

theorem report_counts_cover_retained_events:
  "summary_total (summary (generateSecurityReport now_from now_to p)) = length (logs p)
   \<and> distinct (map fst (summary (generateSecurityReport now_from now_to p)))
   \<and> (\<exists>q. log_all env calls getInstance = Inr q
          \<and> summary_total (summary (generateSecurityReport now_from now_to q))
              = min (length calls) 1000)"
proof -
  have "distinct (map fst (summary (generateSecurityReport now_from now_to p)))"
    by (simp add: generateSecurityReport_def foldl_count_level_distinct)
  moreover from log_all_fresh [of env calls] obtain q where
    "log_all env calls getInstance = Inr q" and
    "logs q = drop (length calls - 1000) (map (call_entry env) calls)"
    by blast
  then have "\<exists>q. log_all env calls getInstance = Inr q
          \<and> summary_total (summary (generateSecurityReport now_from now_to q))
              = min (length calls) 1000"
    by (auto simp: report_summary_total)
  ultimately show ?thesis by (simp add: report_summary_total)
qed

lemma at_index_first: "at_index xs 0 = (case xs of [] \<Rightarrow> None | x # _ \<Rightarrow> Some x)"
  by (cases xs) (simp_all add: at_index_def)

lemma at_index_last:
  "at_index xs (int (length xs) - 1) = (if xs = [] then None else Some (last xs))"
  by (cases xs rule: rev_cases) (simp_all add: at_index_def nth_append)

text \<open>
  C5. On a log whose entries carry the non-empty timestamps that \<open>toISOString\<close>
  produces, the report holds the last ten entries (all of them when there are fewer)
  as \<open>recentEvents\<close>, the critical entries in stored order as \<open>criticalEvents\<close>, and
  as \<open>timeRange\<close> the timestamps of the oldest and the newest entry; on the empty log
  both bounds are the clock readings taken at that moment.
\<close>

theorem report_recent_critical_and_range:
  assumes "\<forall>e \<in> set (logs p). timestamp e \<noteq> []"
  shows "recentEvents (generateSecurityReport now_from now_to p)
           = drop (length (logs p) - 10) (logs p)
       \<and> length (recentEvents (generateSecurityReport now_from now_to p))
           = min 10 (length (logs p))
       \<and> criticalEvents (generateSecurityReport now_from now_to p)
           = filter (\<lambda>e. level e = CRITICAL) (logs p)
       \<and> timeRange (generateSecurityReport now_from now_to p)
           = (if logs p = [] then \<lparr>range_from = now_from, range_to = now_to\<rparr>
              else \<lparr>range_from = timestamp (hd (logs p)),
                    range_to = timestamp (last (logs p))\<rparr>)"
proof -
  have recent: "recentEvents (generateSecurityReport now_from now_to p)
           = drop (length (logs p) - 10) (logs p)"
    by (simp add: generateSecurityReport_def getRecentLogs_positive)
  have critical: "criticalEvents (generateSecurityReport now_from now_to p)
           = filter (\<lambda>e. level e = CRITICAL) (logs p)"
    by (simp add: generateSecurityReport_def getCriticalEvents_def)
  have range: "timeRange (generateSecurityReport now_from now_to p)
           = (if logs p = [] then \<lparr>range_from = now_from, range_to = now_to\<rparr>
              else \<lparr>range_from = timestamp (hd (logs p)),
                    range_to = timestamp (last (logs p))\<rparr>)"
  proof (cases "logs p")
    case Nil
    then show ?thesis
      by (simp add: generateSecurityReport_def at_index_def or_str_def)
  next
    case (Cons e es)
    then have ne: "logs p \<noteq> []" by simp
    then have "hd (logs p) \<in> set (logs p)" and "last (logs p) \<in> set (logs p)"
      by (rule hd_in_set, rule last_in_set)
    with assms have ts: "timestamp (hd (logs p)) \<noteq> []" "timestamp (last (logs p)) \<noteq> []"
      by blast+
    have first: "at_index (logs p) 0 = Some (hd (logs p))"
      using ne by (cases "logs p") (simp_all add: at_index_first)
    have final: "at_index (logs p) (int (length (logs p)) - 1) = Some (last (logs p))"
      using ne by (simp only: at_index_last if_False)
    have "or_str (map_option timestamp (at_index (logs p) 0)) now_from
            = timestamp (hd (logs p))"
      using ts by (simp only: first) (simp add: or_str_def)
    moreover have "or_str (map_option timestamp (at_index (logs p) (int (length (logs p)) - 1)))
              now_to = timestamp (last (logs p))"
      using ts by (simp only: final) (simp add: or_str_def)
    ultimately show ?thesis
      using ne by (simp add: generateSecurityReport_def)
  qed
  from recent critical range show ?thesis by simp
qed

theorem report_recent_critical_and_range_witness:
  "recentEvents (generateSecurityReport ''now-1'' ''now-2'' five_logged) = five_entries
   \<and> criticalEvents (generateSecurityReport ''now-1'' ''now-2'' five_logged)
       = [entry_at ''2026-01-20T09:00:00.005Z'' CRITICAL ''SYSTEM_ERROR'']
   \<and> timeRange (generateSecurityReport ''now-1'' ''now-2'' five_logged)
       = \<lparr>range_from = ''2026-01-20T09:00:00.001Z'', range_to = ''2026-01-20T09:00:00.005Z''\<rparr>
   \<and> timeRange (generateSecurityReport ''now-1'' ''now-2'' getInstance)
       = \<lparr>range_from = ''now-1'', range_to = ''now-2''\<rparr>"
proof -
  have h: "\<forall>e \<in> set (logs five_logged). timestamp e \<noteq> []"
    by (simp add: five_logged_def five_entries_def entry_at_def)
  have h0: "\<forall>e \<in> set (logs getInstance). timestamp e \<noteq> []"
    by (simp add: getInstance_def)
  show ?thesis
    using report_recent_critical_and_range [OF h, of "''now-1''" "''now-2''"]
      report_recent_critical_and_range [OF h0, of "''now-1''" "''now-2''"]
    by (simp add: five_logged_def five_entries_def entry_at_def getInstance_def)
qed


section \<open>What \<open>log\<close> stores and writes\<close>

lemma map_of_obj_set: "map_of (obj_set k v al) = (map_of al)(k \<mapsto> v)"
  by (induction al) (auto simp: fun_eq_iff)

lemma kept_last:
  "(if length xs \<ge> maxLogs then tl (xs @ [e]) else xs @ [e]) \<noteq> []
   \<and> last (if length xs \<ge> maxLogs then tl (xs @ [e]) else xs @ [e]) = e"
proof (cases "length xs \<ge> maxLogs")
  case True
  then have "xs \<noteq> []" by (auto simp: maxLogs_def)
  then have "tl (xs @ [e]) = tl xs @ [e]" by simp
  with True show ?thesis by simp
next
  case False
  then show ?thesis by simp
qed

lemma log_last_entry:
  assumes "log env io lvl ev dets request p = Inr q"
  shows "logs q \<noteq> [] \<and> last (logs q) = logEntry env io lvl ev dets request"
proof -
  from assms have "logs q = (if length (logs p) \<ge> maxLogs
                  then tl (logs p @ [logEntry env io lvl ev dets request])
                  else logs p @ [logEntry env io lvl ev dets request])"
    by (simp only: log_returns sum.inject) (cases q, simp)
  then show ?thesis by (simp only: kept_last simp_thms)
qed

lemma sendCriticalAlert_settles: "snd (sendCriticalAlert fault entry) = Inr ()"
  by (cases fault) (simp_all add: sendCriticalAlert_def alert_try_def)

text \<open>
  C10. The entry that \<open>log\<close> stores holds under \<open>buildVersion\<close> and \<open>buildTime\<close> the
  injected values (the build constant, or its fallback when the constant is empty),
  whatever the caller's \<open>details\<close> held under these keys, and under every other key
  what the caller supplied.
\<close>

theorem injected_build_fields_override_details:
  "\<exists>q. log env io lvl ev dets request p = Inr q
      \<and> map_of (details (last (logs q))) ''buildVersion''
          = Some (JStr (if VERSION env = [] then ''1.0.0-LogsGonstr'' else VERSION env))
      \<and> map_of (details (last (logs q))) ''buildTime''
          = Some (JStr (if BUILD_TIME env = [] then now_buildTime io else BUILD_TIME env))
      \<and> (\<forall>k. k \<noteq> ''buildVersion'' \<and> k \<noteq> ''buildTime'' \<longrightarrow>
            map_of (details (last (logs q))) k
              = map_of (case dets of None \<Rightarrow> [] | Some d \<Rightarrow> d) k)"
proof -
  obtain q where run: "log env io lvl ev dets request p = Inr q"
    by (simp add: log_def Let_def)
  then have "last (logs q) = logEntry env io lvl ev dets request"
    using log_last_entry by blast
  then have "details (last (logs q)) =
      obj_set ''buildTime'' (JStr (if BUILD_TIME env = [] then now_buildTime io else BUILD_TIME env))
        (obj_set ''buildVersion'' (JStr (if VERSION env = [] then ''1.0.0-LogsGonstr'' else VERSION env))
           (case dets of None \<Rightarrow> [] | Some d \<Rightarrow> d))"
    by (simp add: logEntry_def or_str_def)
  then show ?thesis using run by (simp add: map_of_obj_set)
qed

theorem injected_build_fields_override_details_witness:
  "\<exists>q. log server_env (io_at ''2026-01-20T09:00:00.001Z'') INFO ''NORMAL_ACCESS''
          (Some [(''buildVersion'', JStr ''9.9.9''), (''user'', JStr ''ana''),
                 (''buildTime'', JNum 0)]) None getInstance = Inr q
      \<and> map_of (details (last (logs q))) ''buildVersion'' = Some (JStr ''1.0.0-LogsGonstr'')
      \<and> map_of (details (last (logs q))) ''buildTime'' = Some (JStr ''2026-01-20T08:00:00.000Z'')
      \<and> map_of (details (last (logs q))) ''user'' = Some (JStr ''ana'')"
proof -
  let ?dets = "[(''buildVersion'', JStr ''9.9.9''), (''user'', JStr ''ana''), (''buildTime'', JNum 0)]"
  from injected_build_fields_override_details
    [of server_env "io_at ''2026-01-20T09:00:00.001Z''" INFO "''NORMAL_ACCESS''"
        "Some ?dets" None getInstance]
  obtain q where
    run: "log server_env (io_at ''2026-01-20T09:00:00.001Z'') INFO ''NORMAL_ACCESS''
            (Some ?dets) None getInstance = Inr q" and
    version: "map_of (details (last (logs q))) ''buildVersion''
            = Some (JStr (if VERSION server_env = [] then ''1.0.0-LogsGonstr''
                          else VERSION server_env))" and
    time: "map_of (details (last (logs q))) ''buildTime''
            = Some (JStr (if BUILD_TIME server_env = []
                          then now_buildTime (io_at ''2026-01-20T09:00:00.001Z'')
                          else BUILD_TIME server_env))" and
    others: "\<forall>k. k \<noteq> ''buildVersion'' \<and> k \<noteq> ''buildTime'' \<longrightarrow>
            map_of (details (last (logs q))) k
              = map_of (case Some ?dets of None \<Rightarrow> [] | Some d \<Rightarrow> d) k"
    by blast
  from others have "map_of (details (last (logs q))) ''user''
      = map_of (case Some ?dets of None \<Rightarrow> [] | Some d \<Rightarrow> d) ''user''"
    by simp
  then have "map_of (details (last (logs q))) ''user'' = Some (JStr ''ana'')" by simp
  with run version time show ?thesis by (simp add: server_env_def)
qed

text \<open>
  C9 as stated fails on the server, where no \<open>window\<close> is defined: a critical event is
  stored and written to the error stream, and the alert line that the dispatch would
  write is not there.
\<close>

theorem critical_on_server_starts_no_alert:
  "log server_env (io_at ''2026-01-20T09:00:00.005Z'') CRITICAL ''SYSTEM_ERROR'' None None getInstance
     = Inr \<lparr>logs = [entry_at ''2026-01-20T09:00:00.005Z'' CRITICAL ''SYSTEM_ERROR''],
            console =
              [Console_error
                 (siren @ '' [LogsGonstr-CRITICAL] 2026-01-20T09:00:00.005Z - SYSTEM_ERROR'')
                 [ArgEntry (entry_at ''2026-01-20T09:00:00.005Z'' CRITICAL ''SYSTEM_ERROR'')]]\<rparr>
   \<and> fst (sendCriticalAlert None (entry_at ''2026-01-20T09:00:00.005Z'' CRITICAL ''SYSTEM_ERROR''))
     = [Console_log (siren @ '' CRITICAL SECURITY ALERT:'')
          [ArgEntry (entry_at ''2026-01-20T09:00:00.005Z'' CRITICAL ''SYSTEM_ERROR'')]]"
  by (simp add: log_def Let_def server_env_def io_at_def getInstance_def maxLogs_def
      logEntry_def entry_at_def or_str_def extractIP_def console_tier_def
      sendCriticalAlert_def alert_try_def)

text \<open>
  C9 (amended). \<open>log\<close> returns for every level, event name, details and request. It
  starts the alert dispatch exactly when the level is \<open>CRITICAL\<close> and a global
  \<open>window\<close> is defined; otherwise the console line of the level is all it writes. The
  dispatch never rejects: it writes the alert line, or, when its \<open>try\<close> block fails,
  the failure line.
\<close>

theorem log_returns_and_alerts_in_browser_only:
  "\<exists>q. log env io lvl ev dets request p = Inr q
      \<and> (lvl = CRITICAL \<and> window_defined env \<longrightarrow>
            console q = console p
              @ [console_tier lvl
                   (''[LogsGonstr-'' @ level_name lvl @ ''] '' @ now_timestamp io @ '' - '' @ ev)
                   (logEntry env io lvl ev dets request)]
              @ fst (sendCriticalAlert (alert_fault io) (logEntry env io lvl ev dets request)))
      \<and> (\<not> (lvl = CRITICAL \<and> window_defined env) \<longrightarrow>
            console q = console p
              @ [console_tier lvl
                   (''[LogsGonstr-'' @ level_name lvl @ ''] '' @ now_timestamp io @ '' - '' @ ev)
                   (logEntry env io lvl ev dets request)])
      \<and> snd (sendCriticalAlert fault entry) = Inr ()
      \<and> sendCriticalAlert None entry
          = ([Console_log (siren @ '' CRITICAL SECURITY ALERT:'') [ArgEntry entry]], Inr ())
      \<and> sendCriticalAlert (Some err) entry
          = ([Console_error ''[LogsGonstr] Failed to send critical alert:'' [ArgError err]],
             Inr ())"
proof -
  have ts: "timestamp (logEntry env io lvl ev dets request) = now_timestamp io"
    by (simp add: logEntry_def)
  have "snd (sendCriticalAlert fault entry) = Inr ()"
    by (rule sendCriticalAlert_settles)
  moreover have "sendCriticalAlert None entry
          = ([Console_log (siren @ '' CRITICAL SECURITY ALERT:'') [ArgEntry entry]], Inr ())"
    by (simp add: sendCriticalAlert_def alert_try_def)
  moreover have "sendCriticalAlert (Some err) entry
          = ([Console_error ''[LogsGonstr] Failed to send critical alert:'' [ArgError err]],
             Inr ())"
    by (simp add: sendCriticalAlert_def alert_try_def)
  ultimately show ?thesis
    by (simp only: log_returns ts) simp
qed

theorem log_returns_and_alerts_in_browser_only_witness:
  "\<exists>q. log browser_env
          \<lparr>now_timestamp = ''2026-01-20T09:00:00.005Z'', now_buildTime = ''2026-01-20T09:00:00.005Z'',
           alert_fault = Some (JsError ''TypeError: fetch failed'')\<rparr>
          CRITICAL ''SYSTEM_ERROR'' None None getInstance = Inr q
      \<and> console q =
          [Console_error
             (siren @ '' [LogsGonstr-CRITICAL] 2026-01-20T09:00:00.005Z - SYSTEM_ERROR'')
             [ArgEntry (entry_at ''2026-01-20T09:00:00.005Z'' CRITICAL ''SYSTEM_ERROR'')],
           Console_error ''[LogsGonstr] Failed to send critical alert:''
             [ArgError (JsError ''TypeError: fetch failed'')]]"
proof -
  let ?io = "\<lparr>now_timestamp = ''2026-01-20T09:00:00.005Z'',
              now_buildTime = ''2026-01-20T09:00:00.005Z'',
              alert_fault = Some (JsError ''TypeError: fetch failed'')\<rparr>"
  let ?e = "entry_at ''2026-01-20T09:00:00.005Z'' CRITICAL ''SYSTEM_ERROR''"
  have entry: "logEntry browser_env ?io CRITICAL ''SYSTEM_ERROR'' None None = ?e"
    by (simp add: browser_env_def server_env_def logEntry_def entry_at_def or_str_def
        extractIP_def)
  have browser: "CRITICAL = CRITICAL \<and> window_defined browser_env"
    by (simp add: browser_env_def)
  from log_returns_and_alerts_in_browser_only
    [of browser_env ?io CRITICAL "''SYSTEM_ERROR''" None None getInstance
        "Some (JsError ''TypeError: fetch failed'')" ?e "JsError ''TypeError: fetch failed''"]
  obtain q where
    run: "log browser_env ?io CRITICAL ''SYSTEM_ERROR'' None None getInstance = Inr q" and
    out: "CRITICAL = CRITICAL \<and> window_defined browser_env \<longrightarrow>
            console q = console getInstance
              @ [console_tier CRITICAL
                   (''[LogsGonstr-'' @ level_name CRITICAL @ ''] '' @ now_timestamp ?io
                      @ '' - '' @ ''SYSTEM_ERROR'')
                   (logEntry browser_env ?io CRITICAL ''SYSTEM_ERROR'' None None)]
              @ fst (sendCriticalAlert (alert_fault ?io)
                       (logEntry browser_env ?io CRITICAL ''SYSTEM_ERROR'' None None))" and
    failed: "sendCriticalAlert (Some (JsError ''TypeError: fetch failed'')) ?e
          = ([Console_error ''[LogsGonstr] Failed to send critical alert:''
                [ArgError (JsError ''TypeError: fetch failed'')]], Inr ())"
    by blast
  from out browser have "console q = console getInstance
              @ [console_tier CRITICAL
                   (''[LogsGonstr-'' @ level_name CRITICAL @ ''] '' @ now_timestamp ?io
                      @ '' - '' @ ''SYSTEM_ERROR'')
                   (logEntry browser_env ?io CRITICAL ''SYSTEM_ERROR'' None None)]
              @ fst (sendCriticalAlert (alert_fault ?io)
                       (logEntry browser_env ?io CRITICAL ''SYSTEM_ERROR'' None None))"
    by (rule mp)
  then have "console q =
          [Console_error
             (siren @ '' [LogsGonstr-CRITICAL] 2026-01-20T09:00:00.005Z - SYSTEM_ERROR'')
             [ArgEntry ?e],
           Console_error ''[LogsGonstr] Failed to send critical alert:''
             [ArgError (JsError ''TypeError: fetch failed'')]]"
    by (simp add: entry failed getInstance_def console_tier_def)
  with run show ?thesis by blast
qed

section \<open>Stored timestamps\<close>

text \<open>
  Every stored timestamp is a clock reading, so a run of \<open>log\<close> calls whose readings
  are non-empty (as every \<open>toISOString\<close> result is) stores non-empty timestamps only.
\<close>

lemma log_all_timestamps:
  assumes "\<forall>c \<in> set calls. now_timestamp (call_io c) \<noteq> []"
    and "log_all env calls getInstance = Inr q"
  shows "\<forall>e \<in> set (logs q). timestamp e \<noteq> []"
proof -
  from log_all_fresh [of env calls] assms(2)
  have "logs q = drop (length calls - 1000) (map (call_entry env) calls)" by auto
  then have "set (logs q) \<subseteq> call_entry env ` set calls"
    using set_drop_subset [of "length calls - 1000" "map (call_entry env) calls"] by simp
  moreover have "timestamp (call_entry env c) = now_timestamp (call_io c)" for c
    by (simp add: call_entry_def logEntry_def)
  ultimately show ?thesis using assms(1) by auto
qed


section \<open>The request interceptor\<close>

lemma decorate_writable:
  "\<not> headers_immutable r \<Longrightarrow>
     decorate scan r = Inr (r\<lparr>res_headers := set_security_headers scan (res_headers r)\<rparr>)"
  by (simp add: decorate_def response_headers_set_def and_then_def set_security_headers_def)

lemma decorate_immutable:
  "headers_immutable r \<Longrightarrow> decorate scan r = Inl immutable_TypeError"
  by (simp add: decorate_def response_headers_set_def and_then_def)

lemma onRequest_success:
  "\<not> headers_immutable response \<Longrightarrow>
     fst (onRequest clk context (Inr response))
       = Inr (response\<lparr>res_headers :=
                set_security_headers (scanTime clk) (res_headers response)\<rparr>)"
  by (simp add: onRequest_def Let_def and_then_def decorate_writable)

lemma errorResponse_headers:
  "status (errorResponse t) = 500"
  "res_body (errorResponse t) = Text ''Internal Server Error''"
  "length (res_headers (errorResponse t)) = 4"
  "headers_get ''Content-Type'' (res_headers (errorResponse t)) = Some ''text/plain''"
  "headers_get ''X-Error-ID'' (res_headers (errorResponse t)) = Some (''LogsGonstr-'' @ show_int t)"
  "headers_get ''X-Content-Type-Options'' (res_headers (errorResponse t)) = Some ''nosniff''"
  "headers_get ''X-Frame-Options'' (res_headers (errorResponse t)) = Some ''DENY''"
  "headers_get ''Content-Security-Policy'' (res_headers (errorResponse t)) = None"
  "headers_get ''X-XSS-Protection'' (res_headers (errorResponse t)) = None"
  "headers_get ''Referrer-Policy'' (res_headers (errorResponse t)) = None"
  "headers_get ''Permissions-Policy'' (res_headers (errorResponse t)) = None"
  "headers_get ''X-Powered-By-LogsGonstr'' (res_headers (errorResponse t)) = None"
  "headers_get ''X-Security-Scan'' (res_headers (errorResponse t)) = None"
  by (simp_all add: errorResponse_def new_Headers_def headers_get_def same_name_def lower_names)

text \<open>
  A handler that throws a value with a text gets the 500 response, with the reduced
  set of headers of \<open>errorResponse_headers\<close>.
\<close>

lemma onRequest_printable_throw:
  "fst (onRequest clk context (Inl (JsError m))) = Inr (errorResponse (errorTime clk))"
  by (simp add: onRequest_def Let_def and_then_def)

lemma onRequest_unprintable_throw:
  "fst (onRequest clk context (Inl (JsUnprintable v))) = Inl v"
  by (simp add: onRequest_def Let_def and_then_def)

text \<open>
  A response whose header list is immutable makes the first header write throw
  inside the \<open>try\<close> block: the handler succeeded, and the caller gets the 500 response.
\<close>

lemma onRequest_immutable_headers:
  "headers_immutable response \<Longrightarrow>
     fst (onRequest clk context (Inr response)) = Inr (errorResponse (errorTime clk))"
  by (simp add: onRequest_def Let_def and_then_def decorate_immutable immutable_TypeError_def)

lemma onRequest_redirect_becomes_500:
  "\<exists>r. fst (onRequest (clock_at 1000) home_context (Inr redirect_response)) = Inr r
      \<and> status r = 500
      \<and> headers_get ''Content-Security-Policy'' (res_headers r) = None
      \<and> headers_get ''location'' (res_headers r) = None"
proof -
  have "headers_immutable redirect_response" by (simp add: redirect_response_def)
  then have "fst (onRequest (clock_at 1000) home_context (Inr redirect_response))
      = Inr (errorResponse (errorTime (clock_at 1000)))"
    by (rule onRequest_immutable_headers)
  moreover have "headers_get ''location'' (res_headers (errorResponse t)) = None" for t
    by (simp add: errorResponse_def new_Headers_def headers_get_def same_name_def lower_names
        lower_def lower_char_def)
  ultimately show ?thesis by (simp add: errorResponse_headers)
qed

text \<open>
  C6 (amended). When the downstream handler returns a response whose header list can
  be written to, \<open>onRequest\<close> returns it with its status and body unchanged and with
  eight headers set: \<open>Content-Security-Policy\<close> with the eight directives,
  \<open>X-Content-Type-Options: nosniff\<close>, \<open>X-Frame-Options: DENY\<close>,
  \<open>X-XSS-Protection: 1; mode=block\<close>, \<open>Referrer-Policy: strict-origin-when-cross-origin\<close>,
  the \<open>Permissions-Policy\<close> that disables the seven features,
  \<open>X-Powered-By-LogsGonstr: Secure-Portfolio-v1.0\<close>, and \<open>X-Security-Scan\<close> holding the
  clock reading in decimal.
\<close>

theorem onRequest_success_sets_eight_headers:
  assumes "\<not> headers_immutable response"
  shows "\<exists>r. fst (onRequest clk context (Inr response)) = Inr r
      \<and> status r = status response
      \<and> res_body r = res_body response
      \<and> headers_get ''Content-Security-Policy'' (res_headers r) = Some csp_value
      \<and> headers_get ''X-Content-Type-Options'' (res_headers r) = Some ''nosniff''
      \<and> headers_get ''X-Frame-Options'' (res_headers r) = Some ''DENY''
      \<and> headers_get ''X-XSS-Protection'' (res_headers r) = Some ''1; mode=block''
      \<and> headers_get ''Referrer-Policy'' (res_headers r) = Some ''strict-origin-when-cross-origin''
      \<and> headers_get ''Permissions-Policy'' (res_headers r)
          = Some ''geolocation=(), microphone=(), camera=(), payment=(), usb=(), magnetometer=(), gyroscope=()''
      \<and> headers_get ''X-Powered-By-LogsGonstr'' (res_headers r) = Some ''Secure-Portfolio-v1.0''
      \<and> headers_get ''X-Security-Scan'' (res_headers r) = Some (show_int (scanTime clk))"
  using assms
  by (simp add: onRequest_success security_headers_present permissions_value_def)

lemma show_int_1003: "show_int 1003 = ''1003''"
  by code_simp

lemma show_int_2003: "show_int 2003 = ''2003''"
  by code_simp

theorem onRequest_success_sets_eight_headers_witness:
  "\<exists>r. fst (onRequest (clock_at 1000) home_context (Inr page_response)) = Inr r
      \<and> status r = 200
      \<and> res_body r = Text ''<html></html>''
      \<and> headers_get ''Content-Security-Policy'' (res_headers r) = Some csp_value
      \<and> headers_get ''X-Frame-Options'' (res_headers r) = Some ''DENY''
      \<and> headers_get ''X-Security-Scan'' (res_headers r) = Some ''1003''"
proof -
  have writable: "\<not> headers_immutable page_response"
    by (simp add: page_response_def)
  from onRequest_success_sets_eight_headers [OF writable, of "clock_at 1000" home_context]
  obtain r where
    "fst (onRequest (clock_at 1000) home_context (Inr page_response)) = Inr r"
    "status r = status page_response"
    "res_body r = res_body page_response"
    "headers_get ''Content-Security-Policy'' (res_headers r) = Some csp_value"
    "headers_get ''X-Frame-Options'' (res_headers r) = Some ''DENY''"
    "headers_get ''X-Security-Scan'' (res_headers r) = Some (show_int (scanTime (clock_at 1000)))"
    by blast
  then show ?thesis
    by (intro exI [of _ r]) (simp add: page_response_def clock_at_def show_int_1003)
qed

lemma eight_headers_on_empty: "length (set_security_headers scan []) = 8"
  by (simp add: set_security_headers_def same_name_def lower_names)

text \<open>
  C6 as stated speaks of nine fixed headers. On a downstream response without
  headers the interceptor returns exactly eight, and the value of the last one is
  not fixed: it follows the clock.
\<close>

theorem onRequest_success_header_count:
  "(\<exists>r. fst (onRequest (clock_at 1000) home_context (Inr page_response)) = Inr r
       \<and> length (res_headers r) = 8
       \<and> headers_get ''X-Security-Scan'' (res_headers r) = Some ''1003'')
   \<and> (\<exists>r. fst (onRequest (clock_at 2000) home_context (Inr page_response)) = Inr r
       \<and> length (res_headers r) = 8
       \<and> headers_get ''X-Security-Scan'' (res_headers r) = Some ''2003'')"
proof -
  have writable: "\<not> headers_immutable page_response"
    by (simp add: page_response_def)
  have empty: "res_headers page_response = []"
    by (simp add: page_response_def)
  have scan: "scanTime (clock_at 1000) = 1003" "scanTime (clock_at 2000) = 2003"
    by (simp_all add: clock_at_def)
  let ?r1 = "page_response\<lparr>res_headers := set_security_headers 1003 []\<rparr>"
  let ?r2 = "page_response\<lparr>res_headers := set_security_headers 2003 []\<rparr>"
  have "fst (onRequest (clock_at 1000) home_context (Inr page_response)) = Inr ?r1"
    using onRequest_success [OF writable, of "clock_at 1000" home_context]
    by (simp only: scan empty)
  moreover have "length (res_headers ?r1) = 8"
    by (simp add: eight_headers_on_empty)
  moreover have "headers_get ''X-Security-Scan'' (res_headers ?r1) = Some ''1003''"
    by (simp add: security_headers_present show_int_1003)
  moreover have "fst (onRequest (clock_at 2000) home_context (Inr page_response)) = Inr ?r2"
    using onRequest_success [OF writable, of "clock_at 2000" home_context]
    by (simp only: scan empty)
  moreover have "length (res_headers ?r2) = 8"
    by (simp add: eight_headers_on_empty)
  moreover have "headers_get ''X-Security-Scan'' (res_headers ?r2) = Some ''2003''"
    by (simp add: security_headers_present show_int_2003)
  ultimately show ?thesis by blast
qed

text \<open>
  C7. A handler may throw any value. When it throws one that cannot be converted to a
  string, here a Symbol, the template literal in the \<open>catch\<close> block throws before the
  500 response is built: \<open>onRequest\<close> rejects with that \<open>TypeError\<close> and returns no
  response; only the request line has been written. For a thrown value with a text
  the 500 response with the reduced set of headers is returned
  (\<open>onRequest_printable_throw\<close>, \<open>errorResponse_headers\<close>).
\<close>

theorem onRequest_thrown_symbol_rejects:
  "onRequest (clock_at 1000) home_context (Inl thrown_symbol)
     = (Inl (JsError ''TypeError: Cannot convert a Symbol value to a string''),
        [Console_log
           ''[LogsGonstr-Security] 2026-01-20T09:00:00.000Z - Request: GET / - IP: 203.0.113.7 - UA: curl/8.5.0''
           []])"
  by (simp add: onRequest_def Let_def and_then_def thrown_symbol_def clock_at_def
      home_context_def home_request_def or_str_def headers_get_def same_name_def
      lower_def lower_char_def)

section \<open>The status endpoint\<close>

lemma lower_names_status:
  "lower ''X-Security-Level'' = ''x-security-level''"
  "lower ''X-LogsGonstr-Version'' = ''x-logsgonstr-version''"
  by (simp_all add: lower_def lower_char_def)

lemma log_obtain:
  obtains q where "log env io lvl ev dets request p = Inr q"
    and "logs q \<noteq> []"
    and "last (logs q) = logEntry env io lvl ev dets request"
proof -
  obtain q where run: "log env io lvl ev dets request p = Inr q"
    by (simp add: log_def Let_def)
  with log_last_entry [OF run] that show thesis by blast
qed

lemma spread_report:
  "obj_spread (status_envelope now) (json_of_report r) = status_envelope now @ json_of_report r"
  by (simp add: obj_spread_def status_envelope_def json_of_report_def)

lemma report_fields_summary:
  "map_of (status_envelope now @ json_of_report r) ''summary'' = Some (json_of_summary (summary r))"
  by (simp add: status_envelope_def json_of_report_def)

text \<open>
  C8. \<open>GET\<close> on the status endpoint: with the \<open>token\<close> parameter equal to the
  configured constant it stores an \<open>INFO\<close> event and returns status 200 with a JSON
  body made of the status envelope followed by the report, whose \<open>summary\<close> key holds
  the report's counts; with any other token, or none, it stores a \<open>WARN\<close> event and
  returns status 401 with the body \<open>Unauthorized\<close> and the header
  \<open>X-Security-Alert: Invalid Token\<close>.
\<close>

theorem status_endpoint_token_gate:
  "(map_of (req_search request) ''token'' = Some ''LogsGonstr-Admin-2026'' \<longrightarrow>
      (\<exists>resp q. GET env io request clientAddr p = Inr (resp, q)
         \<and> status resp = 200
         \<and> res_body resp =
             Json (JObj (status_envelope (now_body io)
                         @ json_of_report
                             (generateSecurityReport (now_range_from io) (now_range_to io) q)))
         \<and> map_of (status_envelope (now_body io)
                    @ json_of_report
                        (generateSecurityReport (now_range_from io) (now_range_to io) q))
               ''summary''
             = Some (json_of_summary
                       (summary (generateSecurityReport (now_range_from io) (now_range_to io) q)))
         \<and> headers_get ''Content-Type'' (res_headers resp) = Some ''application/json''
         \<and> logs q \<noteq> []
         \<and> level (last (logs q)) = INFO
         \<and> event (last (logs q)) = ''SECURITY_SCAN''))
   \<and> (map_of (req_search request) ''token'' \<noteq> Some ''LogsGonstr-Admin-2026'' \<longrightarrow>
      (\<exists>resp q. GET env io request clientAddr p = Inr (resp, q)
         \<and> status resp = 401
         \<and> res_body resp = Text ''Unauthorized''
         \<and> headers_get ''X-Security-Alert'' (res_headers resp) = Some ''Invalid Token''
         \<and> headers_get ''Content-Type'' (res_headers resp) = Some ''text/plain''
         \<and> logs q \<noteq> []
         \<and> level (last (logs q)) = WARN
         \<and> event (last (logs q)) = ''SUSPICIOUS_ACCESS''))"
proof (intro conjI impI)
  assume ok: "map_of (req_search request) ''token'' = Some ''LogsGonstr-Admin-2026''"
  let ?dets = "Some [(''action'', JStr ''Security status requested''), (''admin'', JBool True)]"
  obtain q where
    run: "log env (io_log io) INFO SECURITY_SCAN ?dets (Some request) p = Inr q" and
    ne: "logs q \<noteq> []" and
    entry: "last (logs q) = logEntry env (io_log io) INFO SECURITY_SCAN ?dets (Some request)"
    by (rule log_obtain)
  let ?resp = "\<lparr>status = 200,
      res_headers = new_Headers [(''Content-Type'', ''application/json''),
                                 (''X-Security-Level'', ''high''),
                                 (''X-LogsGonstr-Version'', ''1.0.0'')],
      headers_immutable = False,
      res_body = Json (JObj (status_envelope (now_body io)
                   @ json_of_report
                       (generateSecurityReport (now_range_from io) (now_range_to io) q)))\<rparr>"
  have "GET env io request clientAddr p = Inr (?resp, q)"
    using ok run by (simp add: GET_def ADMIN_TOKEN_def Let_def spread_report)
  moreover have "headers_get ''Content-Type'' (res_headers ?resp) = Some ''application/json''"
    by (simp add: new_Headers_def headers_get_def same_name_def lower_names lower_names_status)
  moreover have "level (last (logs q)) = INFO" and "event (last (logs q)) = ''SECURITY_SCAN''"
    by (simp_all add: entry logEntry_def SECURITY_SCAN_def)
  ultimately show "\<exists>resp q. GET env io request clientAddr p = Inr (resp, q)
         \<and> status resp = 200
         \<and> res_body resp =
             Json (JObj (status_envelope (now_body io)
                         @ json_of_report
                             (generateSecurityReport (now_range_from io) (now_range_to io) q)))
         \<and> map_of (status_envelope (now_body io)
                    @ json_of_report
                        (generateSecurityReport (now_range_from io) (now_range_to io) q))
               ''summary''
             = Some (json_of_summary
                       (summary (generateSecurityReport (now_range_from io) (now_range_to io) q)))
         \<and> headers_get ''Content-Type'' (res_headers resp) = Some ''application/json''
         \<and> logs q \<noteq> []
         \<and> level (last (logs q)) = INFO
         \<and> event (last (logs q)) = ''SECURITY_SCAN''"
    using ne report_fields_summary
    by (intro exI [of _ ?resp] exI [of _ q]) simp
next
  assume bad: "map_of (req_search request) ''token'' \<noteq> Some ''LogsGonstr-Admin-2026''"
  let ?dets = "Some [(''reason'', JStr ''Invalid admin token attempt''),
                     (''ip'', JStr clientAddr),
                     (''endpoint'', JStr ''/api/security-status'')]"
  obtain q where
    run: "log env (io_log io) WARN SUSPICIOUS_ACCESS ?dets (Some request) p = Inr q" and
    ne: "logs q \<noteq> []" and
    entry: "last (logs q) = logEntry env (io_log io) WARN SUSPICIOUS_ACCESS ?dets (Some request)"
    by (rule log_obtain)
  let ?resp = "\<lparr>status = 401,
      res_headers = new_Headers [(''Content-Type'', ''text/plain''),
                                 (''X-Security-Alert'', ''Invalid Token'')],
      headers_immutable = False,
      res_body = Text ''Unauthorized''\<rparr>"
  have "GET env io request clientAddr p = Inr (?resp, q)"
    using bad run by (simp add: GET_def ADMIN_TOKEN_def Let_def)
  moreover have "headers_get ''X-Security-Alert'' (res_headers ?resp) = Some ''Invalid Token''"
    and "headers_get ''Content-Type'' (res_headers ?resp) = Some ''text/plain''"
    by (simp_all add: new_Headers_def headers_get_def same_name_def lower_names)
  moreover have "level (last (logs q)) = WARN" and "event (last (logs q)) = ''SUSPICIOUS_ACCESS''"
    by (simp_all add: entry logEntry_def SUSPICIOUS_ACCESS_def)
  ultimately show "\<exists>resp q. GET env io request clientAddr p = Inr (resp, q)
         \<and> status resp = 401
         \<and> res_body resp = Text ''Unauthorized''
         \<and> headers_get ''X-Security-Alert'' (res_headers resp) = Some ''Invalid Token''
         \<and> headers_get ''Content-Type'' (res_headers resp) = Some ''text/plain''
         \<and> logs q \<noteq> []
         \<and> level (last (logs q)) = WARN
         \<and> event (last (logs q)) = ''SUSPICIOUS_ACCESS''"
    using ne by (intro exI [of _ ?resp] exI [of _ q]) simp
qed

theorem status_endpoint_token_gate_witness:
  "(\<exists>resp q. GET server_env status_io
                (status_request [(''token'', ''LogsGonstr-Admin-2026'')]) ''203.0.113.7''
                five_logged = Inr (resp, q)
       \<and> status resp = 200 \<and> level (last (logs q)) = INFO)
   \<and> (\<exists>resp q. GET server_env status_io
                (status_request [(''token'', ''letmein'')]) ''203.0.113.7''
                five_logged = Inr (resp, q)
       \<and> status resp = 401 \<and> res_body resp = Text ''Unauthorized''
       \<and> level (last (logs q)) = WARN)
   \<and> (\<exists>resp q. GET server_env status_io (status_request []) ''203.0.113.7''
                five_logged = Inr (resp, q)
       \<and> status resp = 401 \<and> res_body resp = Text ''Unauthorized''
       \<and> level (last (logs q)) = WARN)"
proof -
  have ok: "map_of (req_search (status_request [(''token'', ''LogsGonstr-Admin-2026'')])) ''token''
              = Some ''LogsGonstr-Admin-2026''"
    by (simp add: status_request_def)
  have wrong: "map_of (req_search (status_request [(''token'', ''letmein'')])) ''token''
              \<noteq> Some ''LogsGonstr-Admin-2026''"
    by (simp add: status_request_def)
  have missing: "map_of (req_search (status_request [])) ''token''
              \<noteq> Some ''LogsGonstr-Admin-2026''"
    by (simp add: status_request_def)
  from status_endpoint_token_gate
    [of "status_request [(''token'', ''LogsGonstr-Admin-2026'')]" server_env status_io
        "''203.0.113.7''" five_logged] ok
  have first: "\<exists>resp q. GET server_env status_io
                (status_request [(''token'', ''LogsGonstr-Admin-2026'')]) ''203.0.113.7''
                five_logged = Inr (resp, q)
       \<and> status resp = 200 \<and> level (last (logs q)) = INFO"
    by blast
  from status_endpoint_token_gate
    [of "status_request [(''token'', ''letmein'')]" server_env status_io
        "''203.0.113.7''" five_logged] wrong
  have second: "\<exists>resp q. GET server_env status_io
                (status_request [(''token'', ''letmein'')]) ''203.0.113.7''
                five_logged = Inr (resp, q)
       \<and> status resp = 401 \<and> res_body resp = Text ''Unauthorized''
       \<and> level (last (logs q)) = WARN"
    by blast
  from status_endpoint_token_gate
    [of "status_request []" server_env status_io "''203.0.113.7''" five_logged] missing
  have third: "\<exists>resp q. GET server_env status_io (status_request []) ''203.0.113.7''
                five_logged = Inr (resp, q)
       \<and> status resp = 401 \<and> res_body resp = Text ''Unauthorized''
       \<and> level (last (logs q)) = WARN"
    by blast
  from first second third show ?thesis by blast
qed

end
